theory Spec2Isabelle
  imports Main "HOL-Library.Word" "HOL-Library.AList"
begin

section \<open>Python values\<close>

text \<open>
  The client passes untyped Python values around: keyword arguments, decoded JSON
  bodies, the argument of an exception. One datatype covers them. A \<open>dict\<close> is an
  association list in insertion order (its keys are distinct in every dict Python
  builds); a \<open>float\<close> is its IEEE-754 double bit pattern; a \<open>str\<close> is its UTF-8
  bytes (the only character the client inspects is the ASCII slash).
\<close>

type_synonym pyfloat = "64 word"

datatype pyval =
    PNone
  | PBool bool
  | PInt int
  | PFloat pyfloat
  | PStr string
  | PList "pyval list"
  | PDict "(string \<times> pyval) list"

type_synonym pydict = "(string \<times> pyval) list"

text \<open>Python truth value testing, as \<^verbatim>\<open>if x:\<close> and \<^verbatim>\<open>not x\<close> apply it.\<close>

fun truthy :: "pyval \<Rightarrow> bool" where
  "truthy PNone = False"
| "truthy (PBool b) = b"
| "truthy (PInt i) = (i \<noteq> 0)"
| "truthy (PFloat w) = (w \<noteq> 0 \<and> w \<noteq> 0x8000000000000000)"
| "truthy (PStr s) = (s \<noteq> [])"
| "truthy (PList xs) = (xs \<noteq> [])"
| "truthy (PDict kvs) = (kvs \<noteq> [])"

text \<open>\<^verbatim>\<open>d.get(key, default)\<close> and \<^verbatim>\<open>d[key] = value\<close> on a dict.\<close>

definition dict_get :: "pydict \<Rightarrow> string \<Rightarrow> pyval \<Rightarrow> pyval" where
  "dict_get d k dflt = (case map_of d k of Some v \<Rightarrow> v | None \<Rightarrow> dflt)"

definition dict_set :: "pydict \<Rightarrow> string \<Rightarrow> pyval \<Rightarrow> pydict" where
  "dict_set d k v = AList.update k v d"

text \<open>
  \<^verbatim>\<open>Union[int, str]\<close>, the type of every chat and user identifier, with its value as
  a keyword argument and its rendering inside an f-string.
\<close>

datatype ident = IdInt int | IdStr string

fun ident_val :: "ident \<Rightarrow> pyval" where
  "ident_val (IdInt i) = PInt i"
| "ident_val (IdStr s) = PStr s"

definition digit_char :: "nat \<Rightarrow> char" where
  "digit_char d = char_of (48 + d)"

function digits :: "nat \<Rightarrow> string" where
  "digits n = (if n < 10 then [digit_char n] else digits (n div 10) @ [digit_char (n mod 10)])"
  by pat_completeness auto
termination
  by (relation "measure id") auto

declare digits.simps [simp del]

definition str_int :: "int \<Rightarrow> string" where
  "str_int i = (if i < 0 then CHR ''-'' # digits (nat (- i)) else digits (nat i))"

fun py_str :: "ident \<Rightarrow> string" where
  "py_str (IdInt i) = str_int i"
| "py_str (IdStr s) = s"

text \<open>\<^verbatim>\<open>s.rstrip(chars)\<close>: drop every trailing character that occurs in \<open>chars\<close>.\<close>

definition rstrip :: "string \<Rightarrow> string \<Rightarrow> string" where
  "rstrip chars s = rev (dropWhile (\<lambda>c. c \<in> set chars) (rev s))"

section \<open>Exceptions\<close>

text \<open>
  Every exception that can leave a method of the client is a value. Only the first is
  defined by the repository; the others are raised by the HTTP library, the JSON
  library and the interpreter, and the client catches none of them except the two that
  the secondary decode may raise.
\<close>

datatype error =
    TelegramClientError pyval
  | RequestError string
  | HTTPStatusError nat
  | JSONDecodeError
  | TypeError
  | AttributeError
  | RuntimeError

section \<open>The HTTP library and the remote service\<close>

text \<open>
  The library's client object is outside the repository. It is modelled by the part of
  its contract the facade relies on: a request on a closed client raises, an open
  client hands the request to the network and returns a response or raises a request
  error, and \<^verbatim>\<open>close()\<close> releases the transport unless the client is closed already.
  The record keeps the requests handed to the network, so that what a method sends can
  be stated.
\<close>

record http_request =
  req_method :: string
  url :: string
  params :: "pydict option"
  json :: "pydict option"

text \<open>
  A response is its status code and what \<^verbatim>\<open>response.json()\<close> gives: the decoded body,
  or \<open>None\<close> when the body is not JSON and the call raises.
\<close>

record http_response =
  status_code :: nat
  content_json :: "pyval option"

record httpx_client =
  client_timeout :: pyfloat
  is_closed :: bool
  transport_closes :: nat
  sent :: "http_request list"

text \<open>
  The environment of a call: the JSON library's \<^verbatim>\<open>json.loads\<close> on a string (\<open>None\<close>
  when it raises its decode error) and the network with the remote service behind it.
\<close>

record env =
  loads :: "string \<Rightarrow> pyval option"
  transport :: "http_request \<Rightarrow> error + http_response"

definition httpx_Client :: "pyfloat \<Rightarrow> httpx_client" where
  "httpx_Client t = \<lparr>client_timeout = t, is_closed = False, transport_closes = 0, sent = []\<rparr>"

definition httpx_request ::
  "env \<Rightarrow> httpx_client \<Rightarrow> http_request \<Rightarrow> (error + http_response) \<times> httpx_client" where
  "httpx_request e c req =
     (if is_closed c then (Inl RuntimeError, c)
      else (transport e req, c\<lparr>sent := sent c @ [req]\<rparr>))"

definition httpx_close :: "httpx_client \<Rightarrow> httpx_client" where
  "httpx_close c =
     (if is_closed c then c
      else c\<lparr>is_closed := True, transport_closes := Suc (transport_closes c)\<rparr>)"

definition raise_for_status :: "http_response \<Rightarrow> error + unit" where
  "raise_for_status r =
     (if 200 \<le> status_code r \<and> status_code r \<le> 299 then Inr ()
      else Inl (HTTPStatusError (status_code r)))"

definition response_json :: "http_response \<Rightarrow> error + pyval" where
  "response_json r = (case content_json r of None \<Rightarrow> Inl JSONDecodeError | Some v \<Rightarrow> Inr v)"

text \<open>\<^verbatim>\<open>json.loads(x)\<close> on any value: only a string is decoded.\<close>

definition json_loads :: "env \<Rightarrow> pyval \<Rightarrow> error + pyval" where
  "json_loads e x =
     (case x of
        PStr s \<Rightarrow> (case loads e s of None \<Rightarrow> Inl JSONDecodeError | Some v \<Rightarrow> Inr v)
      | _ \<Rightarrow> Inl TypeError)"

text \<open>\<^verbatim>\<open>x.get(key, default)\<close> on any value: only a dict has the method.\<close>

definition py_get :: "pyval \<Rightarrow> string \<Rightarrow> pyval \<Rightarrow> error + pyval" where
  "py_get x k dflt = (case x of PDict d \<Rightarrow> Inr (dict_get d k dflt) | _ \<Rightarrow> Inl AttributeError)"

section \<open>The client\<close>

record telegram_client =
  base_url :: string
  timeout :: pyfloat
  client :: httpx_client

definition default_base_url :: string where
  "default_base_url = ''http://localhost:8080''"

definition default_timeout :: pyfloat where
  "default_timeout = 0x403E000000000000"

definition init :: "string \<Rightarrow> pyfloat \<Rightarrow> telegram_client" where
  "init b t = \<lparr>base_url = rstrip ''/'' b, timeout = t, client = httpx_Client t\<rparr>"

definition close :: "telegram_client \<Rightarrow> telegram_client" where
  "close self = self\<lparr>client := httpx_close (client self)\<rparr>"

definition enter :: "telegram_client \<Rightarrow> telegram_client" where
  "enter self = self"

definition exit :: "telegram_client \<Rightarrow> telegram_client" where
  "exit self = close self"

definition get_client :: "string \<Rightarrow> telegram_client" where
  "get_client b = init b default_timeout"

type_synonym outcome = "(error + pyval) \<times> telegram_client"

definition request ::
  "env \<Rightarrow> telegram_client \<Rightarrow> string \<Rightarrow> string \<Rightarrow> pydict option \<Rightarrow> pydict option \<Rightarrow> outcome" where
  "request e self meth endpoint ps json_data =
     (let u = base_url self @ endpoint;
          (r, c) = httpx_request e (client self)
                     \<lparr>req_method = meth, url = u, params = ps, json = json_data\<rparr>;
          self' = self\<lparr>client := c\<rparr>
      in case r of
           Inl err \<Rightarrow> (Inl err, self')
         | Inr response \<Rightarrow>
             (case raise_for_status response of
                Inl err \<Rightarrow> (Inl err, self')
              | Inr _ \<Rightarrow>
                  (case response_json response of
                     Inl err \<Rightarrow> (Inl err, self')
                   | Inr result \<Rightarrow>
                       (case py_get result ''success'' PNone of
                          Inl err \<Rightarrow> (Inl err, self')
                        | Inr success \<Rightarrow>
                            if \<not> truthy success then
                              (case py_get result ''error'' (PStr ''Unknown error'') of
                                 Inl err \<Rightarrow> (Inl err, self')
                               | Inr msg \<Rightarrow> (Inl (TelegramClientError msg), self'))
                            else
                              (case py_get result ''data'' PNone of
                                 Inl err \<Rightarrow> (Inl err, self')
                               | Inr data \<Rightarrow>
                                   if truthy data then
                                     (case json_loads e data of
                                        Inr v \<Rightarrow> (Inr v, self')
                                      | Inl err \<Rightarrow>
                                          if err = JSONDecodeError \<or> err = TypeError
                                          then (Inr data, self')
                                          else (Inl err, self'))
                                   else (Inr data, self'))))))"

definition get :: "env \<Rightarrow> telegram_client \<Rightarrow> string \<Rightarrow> pydict \<Rightarrow> outcome" where
  "get e self endpoint ps = request e self ''GET'' endpoint (Some ps) None"

definition post :: "env \<Rightarrow> telegram_client \<Rightarrow> string \<Rightarrow> pydict \<Rightarrow> outcome" where
  "post e self endpoint data = request e self ''POST'' endpoint None (Some data)"

definition put :: "env \<Rightarrow> telegram_client \<Rightarrow> string \<Rightarrow> pydict \<Rightarrow> outcome" where
  "put e self endpoint data = request e self ''PUT'' endpoint None (Some data)"

definition delete :: "env \<Rightarrow> telegram_client \<Rightarrow> string \<Rightarrow> pydict \<Rightarrow> outcome" where
  "delete e self endpoint data =
     (if data \<noteq> [] then request e self ''DELETE'' endpoint None (Some data)
      else request e self ''DELETE'' endpoint None None)"

definition health_check :: "env \<Rightarrow> telegram_client \<Rightarrow> outcome" where
  "health_check e self =
     (let (r, c) = httpx_request e (client self)
                     \<lparr>req_method = ''GET'', url = base_url self @ ''/health'',
                      params = None, json = None\<rparr>;
          self' = self\<lparr>client := c\<rparr>
      in case r of
           Inl err \<Rightarrow> (Inl err, self')
         | Inr response \<Rightarrow>
             (case raise_for_status response of
                Inl err \<Rightarrow> (Inl err, self')
              | Inr _ \<Rightarrow>
                  (case response_json response of
                     Inl err \<Rightarrow> (Inl err, self')
                   | Inr body \<Rightarrow> (Inr body, self'))))"

section \<open>The public operations\<close>

text \<open>
  One definition per method, in the order of the source. Every argument has the type
  of its annotation. A parameter with a Python default other than \<^verbatim>\<open>None\<close> is an
  ordinary argument here (the caller or the default supplies it); a parameter typed
  \<^verbatim>\<open>Optional\<close> is an \<open>option\<close>, \<open>None\<close> when the caller leaves it out or passes
  \<^verbatim>\<open>None\<close>.
\<close>

definition get_chats :: "env \<Rightarrow> telegram_client \<Rightarrow> int \<Rightarrow> int \<Rightarrow> outcome" where
  "get_chats e self page page_size =
     get e self ''/chats'' [(''page'', PInt page), (''page_size'', PInt page_size)]"

definition list_chats ::
  "env \<Rightarrow> telegram_client \<Rightarrow> int \<Rightarrow> string option \<Rightarrow> bool \<Rightarrow> bool \<Rightarrow> outcome" where
  "list_chats e self limit chat_type archived unread_only =
     (let ps = [(''limit'', PInt limit), (''archived'', PBool archived),
                (''unread_only'', PBool unread_only)];
          ps = (case chat_type of
                  Some t \<Rightarrow> if truthy (PStr t) then dict_set ps ''chat_type'' (PStr t) else ps
                | None \<Rightarrow> ps)
      in get e self ''/chats/list'' ps)"

definition get_chat :: "env \<Rightarrow> telegram_client \<Rightarrow> ident \<Rightarrow> outcome" where
  "get_chat e self chat_id = get e self (''/chats/'' @ py_str chat_id) []"

definition get_messages :: "env \<Rightarrow> telegram_client \<Rightarrow> ident \<Rightarrow> int \<Rightarrow> int \<Rightarrow> outcome" where
  "get_messages e self chat_id page page_size =
     get e self (''/chats/'' @ py_str chat_id @ ''/messages'')
       [(''page'', PInt page), (''page_size'', PInt page_size)]"

definition send_message ::
  "env \<Rightarrow> telegram_client \<Rightarrow> ident \<Rightarrow> string \<Rightarrow> int option \<Rightarrow> string option \<Rightarrow> outcome" where
  "send_message e self chat_id message reply_to parse_mode =
     (let data = [(''chat_id'', ident_val chat_id), (''message'', PStr message)];
          data = (case reply_to of
                    Some r \<Rightarrow> if truthy (PInt r) then dict_set data ''reply_to'' (PInt r) else data
                  | None \<Rightarrow> data);
          data = (case parse_mode of
                    Some m \<Rightarrow> if truthy (PStr m) then dict_set data ''parse_mode'' (PStr m) else data
                  | None \<Rightarrow> data)
      in post e self ''/messages/send'' data)"

definition edit_message ::
  "env \<Rightarrow> telegram_client \<Rightarrow> ident \<Rightarrow> int \<Rightarrow> string \<Rightarrow> outcome" where
  "edit_message e self chat_id message_id new_text =
     put e self ''/messages/edit''
       [(''chat_id'', ident_val chat_id), (''message_id'', PInt message_id),
        (''new_text'', PStr new_text)]"

definition delete_message ::
  "env \<Rightarrow> telegram_client \<Rightarrow> ident \<Rightarrow> int \<Rightarrow> bool \<Rightarrow> outcome" where
  "delete_message e self chat_id message_id revoke =
     delete e self ''/messages/delete''
       [(''chat_id'', ident_val chat_id), (''message_id'', PInt message_id),
        (''revoke'', PBool revoke)]"

definition forward_message ::
  "env \<Rightarrow> telegram_client \<Rightarrow> ident \<Rightarrow> ident \<Rightarrow> int \<Rightarrow> outcome" where
  "forward_message e self from_chat_id to_chat_id message_id =
     post e self ''/messages/forward''
       [(''from_chat_id'', ident_val from_chat_id), (''to_chat_id'', ident_val to_chat_id),
        (''message_id'', PInt message_id)]"

definition search_messages ::
  "env \<Rightarrow> telegram_client \<Rightarrow> ident \<Rightarrow> string \<Rightarrow> int \<Rightarrow> ident option \<Rightarrow> outcome" where
  "search_messages e self chat_id query limit from_user =
     (let data = [(''chat_id'', ident_val chat_id), (''query'', PStr query),
                  (''limit'', PInt limit)];
          data = (case from_user of
                    Some u \<Rightarrow> if truthy (ident_val u)
                              then dict_set data ''from_user'' (ident_val u) else data
                  | None \<Rightarrow> data)
      in post e self ''/messages/search'' data)"

definition list_contacts :: "env \<Rightarrow> telegram_client \<Rightarrow> outcome" where
  "list_contacts e self = get e self ''/contacts'' []"

definition search_contacts :: "env \<Rightarrow> telegram_client \<Rightarrow> string \<Rightarrow> int \<Rightarrow> outcome" where
  "search_contacts e self query limit =
     get e self ''/contacts/search'' [(''query'', PStr query), (''limit'', PInt limit)]"

definition add_contact ::
  "env \<Rightarrow> telegram_client \<Rightarrow> string \<Rightarrow> string \<Rightarrow> string option \<Rightarrow> outcome" where
  "add_contact e self phone first_name last_name =
     (let data = [(''phone'', PStr phone), (''first_name'', PStr first_name)];
          data = (case last_name of
                    Some n \<Rightarrow> if truthy (PStr n) then dict_set data ''last_name'' (PStr n) else data
                  | None \<Rightarrow> data)
      in post e self ''/contacts'' data)"

definition delete_contact :: "env \<Rightarrow> telegram_client \<Rightarrow> ident \<Rightarrow> outcome" where
  "delete_contact e self user_id = delete e self (''/contacts/'' @ py_str user_id) []"

definition get_me :: "env \<Rightarrow> telegram_client \<Rightarrow> outcome" where
  "get_me e self = get e self ''/me'' []"

definition get_user_status :: "env \<Rightarrow> telegram_client \<Rightarrow> ident \<Rightarrow> outcome" where
  "get_user_status e self user_id = get e self (''/users/'' @ py_str user_id @ ''/status'') []"

definition resolve_username :: "env \<Rightarrow> telegram_client \<Rightarrow> string \<Rightarrow> outcome" where
  "resolve_username e self username = get e self (''/resolve/'' @ username) []"

definition create_group :: "env \<Rightarrow> telegram_client \<Rightarrow> string \<Rightarrow> ident list \<Rightarrow> outcome" where
  "create_group e self title users =
     post e self ''/groups'' [(''title'', PStr title), (''users'', PList (map ident_val users))]"

definition invite_to_group :: "env \<Rightarrow> telegram_client \<Rightarrow> ident \<Rightarrow> ident list \<Rightarrow> outcome" where
  "invite_to_group e self chat_id user_ids =
     post e self ''/groups/invite''
       [(''chat_id'', ident_val chat_id), (''user_ids'', PList (map ident_val user_ids))]"

definition leave_chat :: "env \<Rightarrow> telegram_client \<Rightarrow> ident \<Rightarrow> outcome" where
  "leave_chat e self chat_id = post e self (''/chats/'' @ py_str chat_id @ ''/leave'') []"

definition get_participants ::
  "env \<Rightarrow> telegram_client \<Rightarrow> ident \<Rightarrow> int \<Rightarrow> int \<Rightarrow> outcome" where
  "get_participants e self chat_id limit offset =
     get e self (''/chats/'' @ py_str chat_id @ ''/participants'')
       [(''limit'', PInt limit), (''offset'', PInt offset)]"

definition get_admins :: "env \<Rightarrow> telegram_client \<Rightarrow> ident \<Rightarrow> outcome" where
  "get_admins e self chat_id = get e self (''/chats/'' @ py_str chat_id @ ''/admins'') []"

definition promote_admin ::
  "env \<Rightarrow> telegram_client \<Rightarrow> ident \<Rightarrow> ident \<Rightarrow> string option \<Rightarrow> outcome" where
  "promote_admin e self chat_id user_id title =
     (let data = [(''chat_id'', ident_val chat_id), (''user_id'', ident_val user_id)];
          data = (case title of
                    Some t \<Rightarrow> if truthy (PStr t) then dict_set data ''title'' (PStr t) else data
                  | None \<Rightarrow> data)
      in post e self ''/admin/promote'' data)"

definition ban_user ::
  "env \<Rightarrow> telegram_client \<Rightarrow> ident \<Rightarrow> ident \<Rightarrow> int option \<Rightarrow> outcome" where
  "ban_user e self chat_id user_id until_date =
     (let data = [(''chat_id'', ident_val chat_id), (''user_id'', ident_val user_id)];
          data = (case until_date of
                    Some d \<Rightarrow> if truthy (PInt d) then dict_set data ''until_date'' (PInt d) else data
                  | None \<Rightarrow> data)
      in post e self ''/admin/ban'' data)"

definition unban_user :: "env \<Rightarrow> telegram_client \<Rightarrow> ident \<Rightarrow> ident \<Rightarrow> outcome" where
  "unban_user e self chat_id user_id =
     post e self ''/admin/unban''
       [(''chat_id'', ident_val chat_id), (''user_id'', ident_val user_id)]"

definition get_invite_link :: "env \<Rightarrow> telegram_client \<Rightarrow> ident \<Rightarrow> outcome" where
  "get_invite_link e self chat_id =
     get e self (''/chats/'' @ py_str chat_id @ ''/invite-link'') []"

definition mute_chat :: "env \<Rightarrow> telegram_client \<Rightarrow> ident \<Rightarrow> int option \<Rightarrow> outcome" where
  "mute_chat e self chat_id mute_until =
     (let ps = [];
          ps = (case mute_until of
                  Some m \<Rightarrow> if truthy (PInt m) then dict_set ps ''mute_until'' (PInt m) else ps
                | None \<Rightarrow> ps)
      in post e self (''/chats/'' @ py_str chat_id @ ''/mute'') ps)"

definition unmute_chat :: "env \<Rightarrow> telegram_client \<Rightarrow> ident \<Rightarrow> outcome" where
  "unmute_chat e self chat_id = post e self (''/chats/'' @ py_str chat_id @ ''/unmute'') []"

definition archive_chat :: "env \<Rightarrow> telegram_client \<Rightarrow> ident \<Rightarrow> outcome" where
  "archive_chat e self chat_id = post e self (''/chats/'' @ py_str chat_id @ ''/archive'') []"

definition unarchive_chat :: "env \<Rightarrow> telegram_client \<Rightarrow> ident \<Rightarrow> outcome" where
  "unarchive_chat e self chat_id =
     post e self (''/chats/'' @ py_str chat_id @ ''/unarchive'') []"

definition save_draft ::
  "env \<Rightarrow> telegram_client \<Rightarrow> ident \<Rightarrow> string \<Rightarrow> int option \<Rightarrow> outcome" where
  "save_draft e self chat_id message reply_to =
     (let data = [(''chat_id'', ident_val chat_id), (''message'', PStr message)];
          data = (case reply_to of
                    Some r \<Rightarrow> if truthy (PInt r) then dict_set data ''reply_to'' (PInt r) else data
                  | None \<Rightarrow> data)
      in post e self ''/drafts/save'' data)"

definition clear_draft :: "env \<Rightarrow> telegram_client \<Rightarrow> ident \<Rightarrow> outcome" where
  "clear_draft e self chat_id = delete e self (''/drafts/'' @ py_str chat_id) []"

text \<open>
  A call of the public interface, and its dispatch to the method: the means of saying
  "every operation".
\<close>

datatype call =
    Health_check
  | Get_chats int int
  | List_chats int "string option" bool bool
  | Get_chat ident
  | Get_messages ident int int
  | Send_message ident string "int option" "string option"
  | Edit_message ident int string
  | Delete_message ident int bool
  | Forward_message ident ident int
  | Search_messages ident string int "ident option"
  | List_contacts
  | Search_contacts string int
  | Add_contact string string "string option"
  | Delete_contact ident
  | Get_me
  | Get_user_status ident
  | Resolve_username string
  | Create_group string "ident list"
  | Invite_to_group ident "ident list"
  | Leave_chat ident
  | Get_participants ident int int
  | Get_admins ident
  | Promote_admin ident ident "string option"
  | Ban_user ident ident "int option"
  | Unban_user ident ident
  | Get_invite_link ident
  | Mute_chat ident "int option"
  | Unmute_chat ident
  | Archive_chat ident
  | Unarchive_chat ident
  | Save_draft ident string "int option"
  | Clear_draft ident

fun perform :: "env \<Rightarrow> telegram_client \<Rightarrow> call \<Rightarrow> outcome" where
  "perform e self Health_check = health_check e self"
| "perform e self (Get_chats page page_size) = get_chats e self page page_size"
| "perform e self (List_chats limit chat_type archived unread_only) =
     list_chats e self limit chat_type archived unread_only"
| "perform e self (Get_chat chat_id) = get_chat e self chat_id"
| "perform e self (Get_messages chat_id page page_size) =
     get_messages e self chat_id page page_size"
| "perform e self (Send_message chat_id message reply_to parse_mode) =
     send_message e self chat_id message reply_to parse_mode"
| "perform e self (Edit_message chat_id message_id new_text) =
     edit_message e self chat_id message_id new_text"
| "perform e self (Delete_message chat_id message_id revoke) =
     delete_message e self chat_id message_id revoke"
| "perform e self (Forward_message from_chat_id to_chat_id message_id) =
     forward_message e self from_chat_id to_chat_id message_id"
| "perform e self (Search_messages chat_id query limit from_user) =
     search_messages e self chat_id query limit from_user"
| "perform e self List_contacts = list_contacts e self"
| "perform e self (Search_contacts query limit) = search_contacts e self query limit"
| "perform e self (Add_contact phone first_name last_name) =
     add_contact e self phone first_name last_name"
| "perform e self (Delete_contact user_id) = delete_contact e self user_id"
| "perform e self Get_me = get_me e self"
| "perform e self (Get_user_status user_id) = get_user_status e self user_id"
| "perform e self (Resolve_username username) = resolve_username e self username"
| "perform e self (Create_group title users) = create_group e self title users"
| "perform e self (Invite_to_group chat_id user_ids) = invite_to_group e self chat_id user_ids"
| "perform e self (Leave_chat chat_id) = leave_chat e self chat_id"
| "perform e self (Get_participants chat_id limit offset) =
     get_participants e self chat_id limit offset"
| "perform e self (Get_admins chat_id) = get_admins e self chat_id"
| "perform e self (Promote_admin chat_id user_id title) =
     promote_admin e self chat_id user_id title"
| "perform e self (Ban_user chat_id user_id until_date) =
     ban_user e self chat_id user_id until_date"
| "perform e self (Unban_user chat_id user_id) = unban_user e self chat_id user_id"
| "perform e self (Get_invite_link chat_id) = get_invite_link e self chat_id"
| "perform e self (Mute_chat chat_id mute_until) = mute_chat e self chat_id mute_until"
| "perform e self (Unmute_chat chat_id) = unmute_chat e self chat_id"
| "perform e self (Archive_chat chat_id) = archive_chat e self chat_id"
| "perform e self (Unarchive_chat chat_id) = unarchive_chat e self chat_id"
| "perform e self (Save_draft chat_id message reply_to) =
     save_draft e self chat_id message reply_to"
| "perform e self (Clear_draft chat_id) = clear_draft e self chat_id"

section \<open>The endpoint catalog of the specification\<close>

text \<open>
  The table of the specification's external interfaces, row by row: the verb, the path
  (an identifier in braces is the rendering of the call's identifier argument), where
  the parameters go (query string, JSON body, or a dash for none), the parameters that
  are always present and those marked optional. It is written from the table, not from
  the code; the theorems below compare the two.
\<close>

datatype placement = No_params | Query | Body

record entry =
  verb :: string
  path :: string
  place :: placement
  required :: "string list"
  optional :: "string list"

fun catalog :: "call \<Rightarrow> entry" where
  "catalog Health_check =
     \<lparr>verb = ''GET'', path = ''/health'', place = No_params,
      required = [], optional = []\<rparr>"
| "catalog (Get_chats page page_size) =
     \<lparr>verb = ''GET'', path = ''/chats'', place = Query,
      required = [''page'', ''page_size''], optional = []\<rparr>"
| "catalog (List_chats limit chat_type archived unread_only) =
     \<lparr>verb = ''GET'', path = ''/chats/list'', place = Query,
      required = [''limit'', ''archived'', ''unread_only''], optional = [''chat_type'']\<rparr>"
| "catalog (Get_chat i) =
     \<lparr>verb = ''GET'', path = ''/chats/'' @ py_str i, place = No_params,
      required = [], optional = []\<rparr>"
| "catalog (Get_messages i page page_size) =
     \<lparr>verb = ''GET'', path = ''/chats/'' @ py_str i @ ''/messages'', place = Query,
      required = [''page'', ''page_size''], optional = []\<rparr>"
| "catalog (Send_message chat_id message reply_to parse_mode) =
     \<lparr>verb = ''POST'', path = ''/messages/send'', place = Body,
      required = [''chat_id'', ''message''], optional = [''reply_to'', ''parse_mode'']\<rparr>"
| "catalog (Edit_message chat_id message_id new_text) =
     \<lparr>verb = ''PUT'', path = ''/messages/edit'', place = Body,
      required = [''chat_id'', ''message_id'', ''new_text''], optional = []\<rparr>"
| "catalog (Delete_message chat_id message_id revoke) =
     \<lparr>verb = ''DELETE'', path = ''/messages/delete'', place = Body,
      required = [''chat_id'', ''message_id'', ''revoke''], optional = []\<rparr>"
| "catalog (Forward_message from_chat_id to_chat_id message_id) =
     \<lparr>verb = ''POST'', path = ''/messages/forward'', place = Body,
      required = [''from_chat_id'', ''to_chat_id'', ''message_id''], optional = []\<rparr>"
| "catalog (Search_messages chat_id query limit from_user) =
     \<lparr>verb = ''POST'', path = ''/messages/search'', place = Body,
      required = [''chat_id'', ''query'', ''limit''], optional = [''from_user'']\<rparr>"
| "catalog List_contacts =
     \<lparr>verb = ''GET'', path = ''/contacts'', place = No_params,
      required = [], optional = []\<rparr>"
| "catalog (Search_contacts query limit) =
     \<lparr>verb = ''GET'', path = ''/contacts/search'', place = Query,
      required = [''query'', ''limit''], optional = []\<rparr>"
| "catalog (Add_contact phone first_name last_name) =
     \<lparr>verb = ''POST'', path = ''/contacts'', place = Body,
      required = [''phone'', ''first_name''], optional = [''last_name'']\<rparr>"
| "catalog (Delete_contact i) =
     \<lparr>verb = ''DELETE'', path = ''/contacts/'' @ py_str i, place = No_params,
      required = [], optional = []\<rparr>"
| "catalog Get_me =
     \<lparr>verb = ''GET'', path = ''/me'', place = No_params,
      required = [], optional = []\<rparr>"
| "catalog (Get_user_status i) =
     \<lparr>verb = ''GET'', path = ''/users/'' @ py_str i @ ''/status'', place = No_params,
      required = [], optional = []\<rparr>"
| "catalog (Resolve_username username) =
     \<lparr>verb = ''GET'', path = ''/resolve/'' @ username, place = No_params,
      required = [], optional = []\<rparr>"
| "catalog (Create_group title users) =
     \<lparr>verb = ''POST'', path = ''/groups'', place = Body,
      required = [''title'', ''users''], optional = []\<rparr>"
| "catalog (Invite_to_group chat_id user_ids) =
     \<lparr>verb = ''POST'', path = ''/groups/invite'', place = Body,
      required = [''chat_id'', ''user_ids''], optional = []\<rparr>"
| "catalog (Leave_chat i) =
     \<lparr>verb = ''POST'', path = ''/chats/'' @ py_str i @ ''/leave'', place = No_params,
      required = [], optional = []\<rparr>"
| "catalog (Get_participants i limit offset) =
     \<lparr>verb = ''GET'', path = ''/chats/'' @ py_str i @ ''/participants'', place = Query,
      required = [''limit'', ''offset''], optional = []\<rparr>"
| "catalog (Get_admins i) =
     \<lparr>verb = ''GET'', path = ''/chats/'' @ py_str i @ ''/admins'', place = No_params,
      required = [], optional = []\<rparr>"
| "catalog (Promote_admin chat_id user_id title) =
     \<lparr>verb = ''POST'', path = ''/admin/promote'', place = Body,
      required = [''chat_id'', ''user_id''], optional = [''title'']\<rparr>"
| "catalog (Ban_user chat_id user_id until_date) =
     \<lparr>verb = ''POST'', path = ''/admin/ban'', place = Body,
      required = [''chat_id'', ''user_id''], optional = [''until_date'']\<rparr>"
| "catalog (Unban_user chat_id user_id) =
     \<lparr>verb = ''POST'', path = ''/admin/unban'', place = Body,
      required = [''chat_id'', ''user_id''], optional = []\<rparr>"
| "catalog (Get_invite_link i) =
     \<lparr>verb = ''GET'', path = ''/chats/'' @ py_str i @ ''/invite-link'', place = No_params,
      required = [], optional = []\<rparr>"
| "catalog (Mute_chat i mute_until) =
     \<lparr>verb = ''POST'', path = ''/chats/'' @ py_str i @ ''/mute'', place = Body,
      required = [], optional = [''mute_until'']\<rparr>"
| "catalog (Unmute_chat i) =
     \<lparr>verb = ''POST'', path = ''/chats/'' @ py_str i @ ''/unmute'', place = No_params,
      required = [], optional = []\<rparr>"
| "catalog (Archive_chat i) =
     \<lparr>verb = ''POST'', path = ''/chats/'' @ py_str i @ ''/archive'', place = No_params,
      required = [], optional = []\<rparr>"
| "catalog (Unarchive_chat i) =
     \<lparr>verb = ''POST'', path = ''/chats/'' @ py_str i @ ''/unarchive'', place = No_params,
      required = [], optional = []\<rparr>"
| "catalog (Save_draft chat_id message reply_to) =
     \<lparr>verb = ''POST'', path = ''/drafts/save'', place = Body,
      required = [''chat_id'', ''message''], optional = [''reply_to'']\<rparr>"
| "catalog (Clear_draft i) =
     \<lparr>verb = ''DELETE'', path = ''/drafts/'' @ py_str i, place = No_params,
      required = [], optional = []\<rparr>"

text \<open>The key and value pairs a request carries, wherever it carries them.\<close>

definition payload :: "http_request \<Rightarrow> pydict" where
  "payload q =
     (case params q of Some d \<Rightarrow> d | None \<Rightarrow> []) @ (case json q of Some d \<Rightarrow> d | None \<Rightarrow> [])"

text \<open>
  A dict carries the parameters of a catalog row: every required key, and no key that
  the row does not list.
\<close>

definition carries :: "entry \<Rightarrow> pydict \<Rightarrow> bool" where
  "carries en d =
     (set (required en) \<subseteq> set (map fst d)
      \<and> set (map fst d) \<subseteq> set (required en @ optional en))"

text \<open>
  A request follows a catalog row: it has the row's verb; a GET has no body and any
  other verb has no query string; the parameters are where the row says.
\<close>

definition placed :: "entry \<Rightarrow> http_request \<Rightarrow> bool" where
  "placed en q =
     (req_method q = verb en
      \<and> (if verb en = ''GET'' then json q = None else params q = None)
      \<and> (case place en of
            Query \<Rightarrow> json q = None \<and> (case params q of Some d \<Rightarrow> carries en d | None \<Rightarrow> False)
          | Body \<Rightarrow> params q = None \<and> (case json q of Some d \<Rightarrow> carries en d | None \<Rightarrow> False)
          | No_params \<Rightarrow> payload q = []))"

text \<open>The requests a call hands to the network: what it adds to the client's record.\<close>

definition requests_of :: "env \<Rightarrow> telegram_client \<Rightarrow> call \<Rightarrow> http_request list" where
  "requests_of e self c =
     drop (length (sent (client self))) (sent (client (snd (perform e self c))))"

definition sent_items :: "env \<Rightarrow> telegram_client \<Rightarrow> call \<Rightarrow> pydict" where
  "sent_items e self c = concat (map payload (requests_of e self c))"

definition sent_keys :: "env \<Rightarrow> telegram_client \<Rightarrow> call \<Rightarrow> string list" where
  "sent_keys e self c = map fst (sent_items e self c)"

section \<open>A reference decoder and test doubles\<close>

text \<open>
  The JSON library is a parameter of the model. Concrete evaluations instantiate it with
  a decoder of a fragment of JSON: objects, arrays, strings with the one-letter
  escapes, integers and the three literals. On a text of the fragment it gives what the
  library gives (a repeated key keeps its first position and its last value); on any
  other text it gives \<open>None\<close>. The first argument of the three mutually recursive parsers
  bounds the number of calls.
\<close>

definition ws :: "string \<Rightarrow> string" where
  "ws = dropWhile (\<lambda>c. c \<in> set [CHR '' '', CHR 0x09, CHR 0x0A, CHR 0x0D])"

definition unescape :: "char \<Rightarrow> char option" where
  "unescape c =
     (if c = CHR 0x22 \<or> c = CHR 0x5C \<or> c = CHR ''/'' then Some c
      else if c = CHR ''b'' then Some (CHR 0x08)
      else if c = CHR ''f'' then Some (CHR 0x0C)
      else if c = CHR ''n'' then Some (CHR 0x0A)
      else if c = CHR ''r'' then Some (CHR 0x0D)
      else if c = CHR ''t'' then Some (CHR 0x09)
      else None)"

fun str_body :: "string \<Rightarrow> string \<Rightarrow> (string \<times> string) option" where
  "str_body acc [] = None"
| "str_body acc [c] = (if c = CHR 0x22 then Some (rev acc, []) else None)"
| "str_body acc (c # d # cs) =
     (if c = CHR 0x22 then Some (rev acc, d # cs)
      else if c = CHR 0x5C then
        (case unescape d of None \<Rightarrow> None | Some x \<Rightarrow> str_body (x # acc) cs)
      else if (of_char c :: nat) < 32 then None
      else str_body (c # acc) (d # cs))"

definition is_digit :: "char \<Rightarrow> bool" where
  "is_digit c = (48 \<le> (of_char c :: nat) \<and> (of_char c :: nat) \<le> 57)"

definition number :: "string \<Rightarrow> (pyval \<times> string) option" where
  "number s =
     (let neg = (s \<noteq> [] \<and> hd s = CHR ''-'');
          r = (if neg then tl s else s);
          ds = takeWhile is_digit r;
          rest = dropWhile is_digit r;
          n = foldl (\<lambda>a c. 10 * a + (of_char c - 48)) (0::nat) ds
      in if ds = [] \<or> (length ds > 1 \<and> hd ds = CHR ''0'')
            \<or> (rest \<noteq> [] \<and> hd rest \<in> set ''.eE'') then None
         else Some (PInt (if neg then - int n else int n), rest))"

definition literal :: "string \<Rightarrow> (pyval \<times> string) option" where
  "literal s =
     (if take 4 s = ''null'' then Some (PNone, drop 4 s)
      else if take 4 s = ''true'' then Some (PBool True, drop 4 s)
      else if take 5 s = ''false'' then Some (PBool False, drop 5 s)
      else number s)"

fun json_value :: "nat \<Rightarrow> string \<Rightarrow> (pyval \<times> string) option"
  and elements :: "nat \<Rightarrow> pyval list \<Rightarrow> string \<Rightarrow> (pyval list \<times> string) option"
  and members :: "nat \<Rightarrow> (string \<times> pyval) list \<Rightarrow> string \<Rightarrow> ((string \<times> pyval) list \<times> string) option"
where
  "json_value 0 s = None"
| "json_value (Suc n) s =
     (case ws s of
        [] \<Rightarrow> None
      | c # cs \<Rightarrow>
          if c = CHR 0x22 then
            (case str_body [] cs of None \<Rightarrow> None | Some (t, r) \<Rightarrow> Some (PStr t, r))
          else if c = CHR ''['' then
            (if take 1 (ws cs) = '']'' then Some (PList [], tl (ws cs))
             else case elements n [] cs of None \<Rightarrow> None | Some (vs, r) \<Rightarrow> Some (PList vs, r))
          else if c = CHR ''{'' then
            (if take 1 (ws cs) = ''}'' then Some (PDict [], tl (ws cs))
             else case members n [] cs of None \<Rightarrow> None | Some (kvs, r) \<Rightarrow> Some (PDict kvs, r))
          else literal (c # cs))"
| "elements 0 acc s = None"
| "elements (Suc n) acc s =
     (case json_value n s of
        None \<Rightarrow> None
      | Some (v, r) \<Rightarrow>
          (case ws r of
             [] \<Rightarrow> None
           | c # r' \<Rightarrow>
               if c = CHR '','' then elements n (acc @ [v]) r'
               else if c = CHR '']'' then Some (acc @ [v], r')
               else None))"
| "members 0 acc s = None"
| "members (Suc n) acc s =
     (case ws s of
        [] \<Rightarrow> None
      | q # s1 \<Rightarrow>
          if q \<noteq> CHR 0x22 then None
          else
            (case str_body [] s1 of
               None \<Rightarrow> None
             | Some (k, s2) \<Rightarrow>
                 (case ws s2 of
                    [] \<Rightarrow> None
                  | c # s3 \<Rightarrow>
                      if c \<noteq> CHR '':'' then None
                      else
                        (case json_value n s3 of
                           None \<Rightarrow> None
                         | Some (v, r) \<Rightarrow>
                             (case ws r of
                                [] \<Rightarrow> None
                              | d # r' \<Rightarrow>
                                  if d = CHR '','' then members n (AList.update k v acc) r'
                                  else if d = CHR ''}'' then Some (AList.update k v acc, r')
                                  else None)))))"

definition decode :: "string \<Rightarrow> pyval option" where
  "decode s =
     (case json_value (Suc (length s)) s of
        None \<Rightarrow> None
      | Some (v, r) \<Rightarrow> if ws r = [] then Some v else None)"

text \<open>
  The remote service in the concrete evaluations: a network that answers every request
  with the same response, one that refuses every connection, a 200 response with a
  given decoded body, the environment over a network, and a client constructed on the
  default address written with a trailing slash.
\<close>

definition reply_with :: "http_response \<Rightarrow> http_request \<Rightarrow> error + http_response" where
  "reply_with resp q = Inr resp"

definition refuse :: "string \<Rightarrow> http_request \<Rightarrow> error + http_response" where
  "refuse msg q = Inl (RequestError msg)"

definition ok :: "pyval \<Rightarrow> http_response" where
  "ok body = \<lparr>status_code = 200, content_json = Some body\<rparr>"

definition env_with :: "(http_request \<Rightarrow> error + http_response) \<Rightarrow> env" where
  "env_with tr = \<lparr>loads = decode, transport = tr\<rparr>"

definition local_client :: telegram_client where
  "local_client = init ''http://localhost:8080/'' default_timeout"

section \<open>The core request path\<close>

lemmas op_defs =
  get_chats_def list_chats_def get_chat_def get_messages_def send_message_def
  edit_message_def delete_message_def forward_message_def search_messages_def
  list_contacts_def search_contacts_def add_contact_def delete_contact_def get_me_def
  get_user_status_def resolve_username_def create_group_def invite_to_group_def
  leave_chat_def get_participants_def get_admins_def promote_admin_def ban_user_def
  unban_user_def get_invite_link_def mute_chat_def unmute_chat_def archive_chat_def
  unarchive_chat_def save_draft_def clear_draft_def

lemmas double_defs = reply_with_def refuse_def ok_def env_with_def local_client_def

text \<open>What a request leaves behind: the client with the library's record extended.\<close>

lemma snd_request:
  "snd (request e self m ep ps js) =
     self\<lparr>client := snd (httpx_request e (client self)
                          \<lparr>req_method = m, url = base_url self @ ep, params = ps, json = js\<rparr>)\<rparr>"
  by (simp add: request_def Let_def split: prod.splits sum.splits)

lemma snd_health_check:
  "snd (health_check e self) =
     self\<lparr>client := snd (httpx_request e (client self)
                          \<lparr>req_method = ''GET'', url = base_url self @ ''/health'',
                           params = None, json = None\<rparr>)\<rparr>"
  by (simp add: health_check_def Let_def split: prod.splits sum.splits)

lemma sent_request:
  "\<not> is_closed (client self) \<Longrightarrow>
   sent (client (snd (request e self m ep ps js))) =
     sent (client self) @ [\<lparr>req_method = m, url = base_url self @ ep, params = ps, json = js\<rparr>]"
  by (simp add: snd_request httpx_request_def)

text \<open>What a request returns, by the stage at which it stops.\<close>

lemma fst_request_closed:
  "is_closed (client self) \<Longrightarrow> fst (request e self m ep ps js) = Inl RuntimeError"
  by (simp add: request_def httpx_request_def)

lemma fst_request_transport_error:
  "\<not> is_closed (client self) \<Longrightarrow>
   transport e \<lparr>req_method = m, url = base_url self @ ep, params = ps, json = js\<rparr> = Inl err \<Longrightarrow>
   fst (request e self m ep ps js) = Inl err"
  by (simp add: request_def Let_def httpx_request_def)

lemma fst_request_status:
  "\<not> is_closed (client self) \<Longrightarrow>
   transport e \<lparr>req_method = m, url = base_url self @ ep, params = ps, json = js\<rparr> = Inr resp \<Longrightarrow>
   \<not> (200 \<le> status_code resp \<and> status_code resp \<le> 299) \<Longrightarrow>
   fst (request e self m ep ps js) = Inl (HTTPStatusError (status_code resp))"
  by (auto simp add: request_def Let_def httpx_request_def raise_for_status_def)

lemma fst_request_envelope:
  "\<not> is_closed (client self) \<Longrightarrow>
   transport e \<lparr>req_method = m, url = base_url self @ ep, params = ps, json = js\<rparr> = Inr resp \<Longrightarrow>
   200 \<le> status_code resp \<Longrightarrow> status_code resp \<le> 299 \<Longrightarrow>
   content_json resp = Some (PDict kv) \<Longrightarrow>
   fst (request e self m ep ps js) =
     (if \<not> truthy (dict_get kv ''success'' PNone)
      then Inl (TelegramClientError (dict_get kv ''error'' (PStr ''Unknown error'')))
      else Inr (case dict_get kv ''data'' PNone of
                  PStr s \<Rightarrow> (if s = [] then PStr s
                             else case loads e s of Some v \<Rightarrow> v | None \<Rightarrow> PStr s)
                | d \<Rightarrow> d))"
  by (simp add: request_def Let_def httpx_request_def raise_for_status_def response_json_def
      py_get_def json_loads_def split: pyval.splits option.splits)

text \<open>
  Every operation but the health check is one call of the core request path, with the
  verb and the path of its catalog row and the parameters placed as the row says.
\<close>

lemma perform_request:
  "c \<noteq> Health_check \<Longrightarrow>
   \<exists>ps js. perform e self c = request e self (verb (catalog c)) (path (catalog c)) ps js
     \<and> placed (catalog c)
          \<lparr>req_method = verb (catalog c), url = base_url self @ path (catalog c),
           params = ps, json = js\<rparr>"
proof (cases c)
qed (auto simp add: op_defs get_def post_def put_def delete_def dict_set_def Let_def
      placed_def carries_def payload_def split: option.splits)

lemma perform_envelope:
  assumes "c \<noteq> Health_check" and "\<not> is_closed (client self)"
    and "\<forall>q. transport e q = Inr resp"
    and "200 \<le> status_code resp" and "status_code resp \<le> 299"
    and "content_json resp = Some (PDict kv)"
  shows "fst (perform e self c) =
     (if \<not> truthy (dict_get kv ''success'' PNone)
      then Inl (TelegramClientError (dict_get kv ''error'' (PStr ''Unknown error'')))
      else Inr (case dict_get kv ''data'' PNone of
                  PStr s \<Rightarrow> (if s = [] then PStr s
                             else case loads e s of Some v \<Rightarrow> v | None \<Rightarrow> PStr s)
                | d \<Rightarrow> d))"
proof -
  from assms(1) obtain ps js where
    "perform e self c = request e self (verb (catalog c)) (path (catalog c)) ps js"
    using perform_request by blast
  moreover have "transport e \<lparr>req_method = verb (catalog c), url = base_url self @ path (catalog c),
      params = ps, json = js\<rparr> = Inr resp"
    using assms(3) by simp
  ultimately show ?thesis
    using fst_request_envelope [OF assms(2) _ assms(4) assms(5) assms(6)] by simp
qed

lemma decode_samples:
  "decode ''{\"a\":1}'' = Some (PDict [(''a'', PInt 1)])"
  "decode ''plain text'' = None"
  "decode [] = None"
  by code_simp+

lemma local_client_open: "\<not> is_closed (client local_client)"
  by (simp add: local_client_def init_def httpx_Client_def)

text \<open>The same for the health check, and for every operation at once.\<close>

lemma fst_health_check:
  "\<not> is_closed (client self) \<Longrightarrow>
   fst (health_check e self) =
     (case transport e \<lparr>req_method = ''GET'', url = base_url self @ ''/health'',
                        params = None, json = None\<rparr> of
        Inl err \<Rightarrow> Inl err
      | Inr resp \<Rightarrow>
          if 200 \<le> status_code resp \<and> status_code resp \<le> 299
          then (case content_json resp of None \<Rightarrow> Inl JSONDecodeError | Some v \<Rightarrow> Inr v)
          else Inl (HTTPStatusError (status_code resp)))"
  by (simp add: health_check_def Let_def httpx_request_def raise_for_status_def
      response_json_def split: sum.splits option.splits)

lemma perform_transport_error:
  assumes "\<not> is_closed (client self)" and "\<forall>q. transport e q = Inl err"
  shows "fst (perform e self c) = Inl err"
proof (cases "c = Health_check")
  case True
  then show ?thesis using assms by (simp add: fst_health_check)
next
  case False
  then obtain ps js where
    "perform e self c = request e self (verb (catalog c)) (path (catalog c)) ps js"
    using perform_request by blast
  then show ?thesis using assms by (simp add: fst_request_transport_error)
qed

lemma perform_status_error:
  assumes "\<not> is_closed (client self)" and "\<forall>q. transport e q = Inr resp"
    and "\<not> (200 \<le> status_code resp \<and> status_code resp \<le> 299)"
  shows "fst (perform e self c) = Inl (HTTPStatusError (status_code resp))"
proof (cases "c = Health_check")
  case True
  then show ?thesis using assms by (auto simp add: fst_health_check)
next
  case False
  then obtain ps js where
    "perform e self c = request e self (verb (catalog c)) (path (catalog c)) ps js"
    using perform_request by blast
  then show ?thesis using assms fst_request_status [of self e] by simp
qed

lemma fst_request_open:
  "\<not> is_closed (client self) \<Longrightarrow>
   fst (request e self m ep ps js) =
     (case transport e \<lparr>req_method = m, url = base_url self @ ep, params = ps, json = js\<rparr> of
        Inl err \<Rightarrow> Inl err
      | Inr resp \<Rightarrow>
          if 200 \<le> status_code resp \<and> status_code resp \<le> 299
          then (case content_json resp of
                  None \<Rightarrow> Inl JSONDecodeError
                | Some (PDict kv) \<Rightarrow>
                    (if \<not> truthy (dict_get kv ''success'' PNone)
                     then Inl (TelegramClientError (dict_get kv ''error'' (PStr ''Unknown error'')))
                     else Inr (case dict_get kv ''data'' PNone of
                                 PStr s \<Rightarrow> (if s = [] then PStr s
                                            else case loads e s of Some v \<Rightarrow> v | None \<Rightarrow> PStr s)
                               | d \<Rightarrow> d))
                | Some _ \<Rightarrow> Inl AttributeError)
          else Inl (HTTPStatusError (status_code resp)))"
  by (simp add: request_def Let_def httpx_request_def raise_for_status_def response_json_def
      py_get_def json_loads_def split: sum.splits pyval.splits option.splits)

lemma perform_client_error_origin:
  assumes "\<not> is_closed (client self)" and "\<forall>q. transport e q = r"
    and "fst (perform e self c) = Inl (TelegramClientError m)"
  shows "r = Inl (TelegramClientError m)
       \<or> (\<exists>resp kv. r = Inr resp \<and> 200 \<le> status_code resp \<and> status_code resp \<le> 299
             \<and> content_json resp = Some (PDict kv)
             \<and> \<not> truthy (dict_get kv ''success'' PNone))"
proof (cases "c = Health_check")
  case True
  then show ?thesis using assms
    by (auto simp add: fst_health_check split: sum.splits if_splits option.splits)
next
  case False
  then obtain ps js where
    "perform e self c = request e self (verb (catalog c)) (path (catalog c)) ps js"
    using perform_request by blast
  then show ?thesis using assms
    by (auto simp add: fst_request_open split: sum.splits if_splits option.splits pyval.splits)
qed

lemma falsy_values:
  "(\<not> truthy v) =
     (v \<in> {PNone, PBool False, PInt 0, PFloat 0, PFloat 0x8000000000000000,
           PStr [], PList [], PDict []})"
  by (cases v) auto

text \<open>The requests an operation hands to the network.\<close>

lemma requests_of_request:
  "\<not> is_closed (client self) \<Longrightarrow> perform e self c = request e self m ep ps js \<Longrightarrow>
   requests_of e self c =
     [\<lparr>req_method = m, url = base_url self @ ep, params = ps, json = js\<rparr>]"
  by (simp add: requests_of_def sent_request)

lemma requests_of_health_check:
  "\<not> is_closed (client self) \<Longrightarrow>
   requests_of e self Health_check =
     [\<lparr>req_method = ''GET'', url = base_url self @ ''/health'', params = None, json = None\<rparr>]"
  by (simp add: requests_of_def snd_health_check httpx_request_def)

lemma requests_of_get:
  "\<not> is_closed (client self) \<Longrightarrow> perform e self c = get e self ep ps \<Longrightarrow>
   requests_of e self c =
     [\<lparr>req_method = ''GET'', url = base_url self @ ep, params = Some ps, json = None\<rparr>]"
  by (simp add: get_def requests_of_request)

lemma requests_of_post:
  "\<not> is_closed (client self) \<Longrightarrow> perform e self c = post e self ep d \<Longrightarrow>
   requests_of e self c =
     [\<lparr>req_method = ''POST'', url = base_url self @ ep, params = None, json = Some d\<rparr>]"
  by (simp add: post_def requests_of_request)

lemma requests_of_put:
  "\<not> is_closed (client self) \<Longrightarrow> perform e self c = put e self ep d \<Longrightarrow>
   requests_of e self c =
     [\<lparr>req_method = ''PUT'', url = base_url self @ ep, params = None, json = Some d\<rparr>]"
  by (simp add: put_def requests_of_request)

lemma requests_of_delete:
  "\<not> is_closed (client self) \<Longrightarrow> perform e self c = delete e self ep d \<Longrightarrow>
   requests_of e self c =
     [\<lparr>req_method = ''DELETE'', url = base_url self @ ep, params = None,
       json = (if d = [] then None else Some d)\<rparr>]"
  by (simp add: delete_def requests_of_request)

lemma requests_of_perform:
  assumes "\<not> is_closed (client self)"
  shows "\<exists>q. requests_of e self c = [q] \<and> url q = base_url self @ path (catalog c)
           \<and> placed (catalog c) q"
proof (cases "c = Health_check")
  case True
  then show ?thesis
    using assms by (simp add: requests_of_health_check placed_def payload_def)
next
  case False
  then obtain ps js where
    "perform e self c = request e self (verb (catalog c)) (path (catalog c)) ps js"
    "placed (catalog c)
          \<lparr>req_method = verb (catalog c), url = base_url self @ path (catalog c),
           params = ps, json = js\<rparr>"
    using perform_request by blast
  then show ?thesis
    using assms by (simp add: requests_of_request)
qed

lemma delete_requests:
  assumes "\<not> is_closed (client self)" and "q \<in> set (requests_of e self c)"
    and "req_method q = ''DELETE''"
  shows "params q = None \<and> json q \<noteq> Some []"
proof (cases c)
qed (use assms in \<open>auto simp add: requests_of_health_check requests_of_get requests_of_post
      requests_of_put requests_of_delete op_defs Let_def split: option.splits\<close>)

lemma sent_items_single:
  "requests_of e self c = [q] \<Longrightarrow> sent_items e self c = payload q"
  by (simp add: sent_items_def)

lemma optional_values_truthy:
  assumes "\<not> is_closed (client self)" and "(k, v) \<in> set (sent_items e self c)"
    and "k \<in> set (optional (catalog c))"
  shows "truthy v"
proof (cases c)
qed (use assms in \<open>auto simp add: sent_items_def payload_def requests_of_health_check
      requests_of_get requests_of_post requests_of_put requests_of_delete op_defs Let_def
      dict_set_def split: option.splits if_splits\<close>)

lemma str_int_samples:
  "str_int 42 = ''42''" "str_int (- 1001) = ''-1001''" "str_int 0 = ''0''"
  by code_simp+

lemma local_client_base: "base_url local_client = ''http://localhost:8080''"
  by (simp add: local_client_def init_def rstrip_def)

text \<open>Stripping, and the shape of the paths.\<close>

lemma rstrip_decomp: "\<exists>n. s = rstrip [c] s @ replicate n c"
proof -
  let ?P = "\<lambda>x. x \<in> set [c]"
  have "rev s = takeWhile ?P (rev s) @ dropWhile ?P (rev s)" by simp
  then have "s = rev (dropWhile ?P (rev s)) @ rev (takeWhile ?P (rev s))"
    by (metis rev_append rev_rev_ident)
  moreover have "\<forall>y \<in> set (rev (takeWhile ?P (rev s))). y = c"
    by (auto dest: set_takeWhileD)
  then have "replicate (length (rev (takeWhile ?P (rev s)))) c = rev (takeWhile ?P (rev s))"
    by (rule replicate_length_same)
  ultimately show ?thesis
    unfolding rstrip_def by metis
qed

lemma rstrip_no_trailing: "rstrip [c] s \<noteq> x @ [c]"
proof
  assume "rstrip [c] s = x @ [c]"
  then have d: "dropWhile (\<lambda>x. x \<in> set [c]) (rev s) = c # rev x"
    unfolding rstrip_def by (metis rev.simps(2) rev_rev_ident rev_swap)
  then have "\<not> (hd (dropWhile (\<lambda>x. x \<in> set [c]) (rev s)) \<in> set [c])"
    using hd_dropWhile [of "\<lambda>x. x \<in> set [c]" "rev s"] by simp
  with d show False by simp
qed

lemma path_slash: "take 1 (path (catalog c)) = ''/'' \<and> take 2 (path (catalog c)) \<noteq> ''//''"
  by (cases c) simp_all

lemma base_url_perform: "base_url (snd (perform e self c)) = base_url self"
proof (cases "c = Health_check")
  case True
  then show ?thesis by (simp add: snd_health_check)
next
  case False
  then obtain ps js where
    "perform e self c = request e self (verb (catalog c)) (path (catalog c)) ps js"
    using perform_request by blast
  then show ?thesis by (simp add: snd_request)
qed

lemma no_double_slash_at_join:
  assumes "\<And>z. b \<noteq> z @ ''/''" and "take 1 p = ''/''" and "take 2 p \<noteq> ''//''"
    and "b @ p = x @ ''//'' @ y"
  shows "length x + 1 \<noteq> length b \<and> length x \<noteq> length b"
proof (intro conjI notI)
  assume l: "length x + 1 = length b"
  then have "take (length x + 1) (b @ p) = b" by simp
  moreover have "take (length x + 1) (x @ ''//'' @ y) = x @ ''/''" by simp
  ultimately have "b = x @ ''/''" using assms(4) by simp
  with assms(1) show False by blast
next
  assume l: "length x = length b"
  with assms(4) have "p = ''//'' @ y" by simp
  with assms(3) show False by simp
qed

text \<open>Closing twice is closing once.\<close>

lemma close_close: "close (close self) = close self"
  by (simp add: close_def httpx_close_def)

lemma close_funpow: "(close ^^ Suc n) self = close self"
  by (induction n) (simp_all add: close_close)

section \<open>Envelope failures\<close>

text \<open>
  C1. Every operation that goes through the core request path, on a 2xx response whose
  body decodes to an object in which \<open>success\<close> is false or absent, raises the client
  error whose argument is the object's \<open>error\<close> field, or the string "Unknown error"
  when there is no such field; it returns no data.
\<close>

theorem envelope_failure_raises:
  assumes "c \<noteq> Health_check" and "\<not> is_closed (client self)"
    and "\<forall>q. transport e q = Inr resp"
    and "200 \<le> status_code resp" and "status_code resp \<le> 299"
    and "content_json resp = Some (PDict kv)"
    and "map_of kv ''success'' = None \<or> map_of kv ''success'' = Some (PBool False)"
  shows "fst (perform e self c) =
     Inl (TelegramClientError
            (case map_of kv ''error'' of Some m \<Rightarrow> m | None \<Rightarrow> PStr ''Unknown error''))"
proof -
  have "\<not> truthy (dict_get kv ''success'' PNone)"
    using assms(7) by (auto simp add: dict_get_def)
  then show ?thesis
    using perform_envelope [OF assms(1-6)] by (simp add: dict_get_def)
qed

theorem envelope_failure_raises_witness:
  "fst (perform
         (env_with (reply_with (ok (PDict [(''success'', PBool False),
                                           (''error'', PStr ''chat not found'')]))))
         local_client (Send_message (IdInt 42) ''hi'' None None))
     = Inl (TelegramClientError (PStr ''chat not found''))
   \<and> fst (perform (env_with (reply_with (ok (PDict [(''success'', PBool False)]))))
            local_client Get_me)
     = Inl (TelegramClientError (PStr ''Unknown error''))"
proof
  show "fst (perform
         (env_with (reply_with (ok (PDict [(''success'', PBool False),
                                           (''error'', PStr ''chat not found'')]))))
         local_client (Send_message (IdInt 42) ''hi'' None None))
     = Inl (TelegramClientError (PStr ''chat not found''))"
    using envelope_failure_raises [of "Send_message (IdInt 42) ''hi'' None None" local_client
        "env_with (reply_with (ok (PDict [(''success'', PBool False),
                                          (''error'', PStr ''chat not found'')])))"
        "ok (PDict [(''success'', PBool False), (''error'', PStr ''chat not found'')])"
        "[(''success'', PBool False), (''error'', PStr ''chat not found'')]"]
      local_client_open
    by (simp add: reply_with_def ok_def env_with_def)
  show "fst (perform (env_with (reply_with (ok (PDict [(''success'', PBool False)]))))
            local_client Get_me)
     = Inl (TelegramClientError (PStr ''Unknown error''))"
    using envelope_failure_raises [of Get_me local_client
        "env_with (reply_with (ok (PDict [(''success'', PBool False)])))"
        "ok (PDict [(''success'', PBool False)])" "[(''success'', PBool False)]"]
      local_client_open
    by (simp add: reply_with_def ok_def env_with_def)
qed

text \<open>
  C8. The test of \<open>success\<close> is truth value testing, not a comparison with a boolean. On
  a 2xx response whose body decodes to an object, an operation of the core request path
  raises the client error exactly when \<open>success\<close> is absent or is one of Python's false
  values (\<open>None\<close>, \<open>False\<close>, the integer zero, a float zero of either sign, the empty
  string, list or dict), and returns data exactly when it is any other value, boolean
  or not.
\<close>

theorem success_is_truthiness:
  assumes "c \<noteq> Health_check" and "\<not> is_closed (client self)"
    and "\<forall>q. transport e q = Inr resp"
    and "200 \<le> status_code resp" and "status_code resp \<le> 299"
    and "content_json resp = Some (PDict kv)"
  shows "((\<exists>m. fst (perform e self c) = Inl (TelegramClientError m)) \<longleftrightarrow>
            (case map_of kv ''success'' of
               None \<Rightarrow> True
             | Some v \<Rightarrow> v \<in> {PNone, PBool False, PInt 0, PFloat 0, PFloat 0x8000000000000000,
                              PStr [], PList [], PDict []}))
         \<and> ((\<exists>d. fst (perform e self c) = Inr d) \<longleftrightarrow>
            \<not> (case map_of kv ''success'' of
               None \<Rightarrow> True
             | Some v \<Rightarrow> v \<in> {PNone, PBool False, PInt 0, PFloat 0, PFloat 0x8000000000000000,
                              PStr [], PList [], PDict []}))"
proof -
  have t: "(case map_of kv ''success'' of
               None \<Rightarrow> True
             | Some v \<Rightarrow> v \<in> {PNone, PBool False, PInt 0, PFloat 0, PFloat 0x8000000000000000,
                              PStr [], PList [], PDict []})
           = (\<not> truthy (dict_get kv ''success'' PNone))"
    by (simp add: dict_get_def falsy_values split: option.splits)
  show ?thesis
    unfolding t using perform_envelope [OF assms(1-6)] by simp
qed

theorem success_is_truthiness_witness:
  "(\<exists>d. fst (perform (env_with (reply_with (ok (PDict [(''success'', PStr ''false'')]))))
                local_client Get_me) = Inr d)
   \<and> (\<exists>d. fst (perform (env_with (reply_with (ok (PDict [(''success'', PInt 1)]))))
                local_client Get_me) = Inr d)
   \<and> (\<exists>m. fst (perform (env_with (reply_with (ok (PDict [(''success'', PInt 0)]))))
                local_client Get_me) = Inl (TelegramClientError m))
   \<and> (\<exists>m. fst (perform (env_with (reply_with (ok (PDict [(''success'', PStr [])]))))
                local_client Get_me) = Inl (TelegramClientError m))"
proof (intro conjI)
  show "\<exists>d. fst (perform (env_with (reply_with (ok (PDict [(''success'', PStr ''false'')]))))
                local_client Get_me) = Inr d"
    using success_is_truthiness [of Get_me local_client
        "env_with (reply_with (ok (PDict [(''success'', PStr ''false'')])))"
        "ok (PDict [(''success'', PStr ''false'')])" "[(''success'', PStr ''false'')]"]
      local_client_open
    by (simp add: reply_with_def ok_def env_with_def)
  show "\<exists>d. fst (perform (env_with (reply_with (ok (PDict [(''success'', PInt 1)]))))
                local_client Get_me) = Inr d"
    using success_is_truthiness [of Get_me local_client
        "env_with (reply_with (ok (PDict [(''success'', PInt 1)])))"
        "ok (PDict [(''success'', PInt 1)])" "[(''success'', PInt 1)]"]
      local_client_open
    by (simp add: reply_with_def ok_def env_with_def)
  show "\<exists>m. fst (perform (env_with (reply_with (ok (PDict [(''success'', PInt 0)]))))
                local_client Get_me) = Inl (TelegramClientError m)"
    using success_is_truthiness [of Get_me local_client
        "env_with (reply_with (ok (PDict [(''success'', PInt 0)])))"
        "ok (PDict [(''success'', PInt 0)])" "[(''success'', PInt 0)]"]
      local_client_open
    by (simp add: reply_with_def ok_def env_with_def)
  show "\<exists>m. fst (perform (env_with (reply_with (ok (PDict [(''success'', PStr [])]))))
                local_client Get_me) = Inl (TelegramClientError m)"
    using success_is_truthiness [of Get_me local_client
        "env_with (reply_with (ok (PDict [(''success'', PStr [])])))"
        "ok (PDict [(''success'', PStr [])])" "[(''success'', PStr [])]"]
      local_client_open
    by (simp add: reply_with_def ok_def env_with_def)
qed

section \<open>Unwrapping the data\<close>

text \<open>
  C2. On a successful envelope the core request path returns the \<open>data\<close> field: a string
  is given to the JSON decoder and the decoded structure is returned, or the string
  itself when the decoder rejects it; any other value is returned as it is; an absent
  field gives \<open>None\<close>. A false value (the empty string among them) is returned as it is
  whatever the decoder would do with it. The decoder is a parameter; all that is assumed
  of it is that the empty text is not JSON.
\<close>

theorem success_data_unwrapped:
  assumes "c \<noteq> Health_check" and "\<not> is_closed (client self)"
    and "\<forall>q. transport e q = Inr resp"
    and "200 \<le> status_code resp" and "status_code resp \<le> 299"
    and "content_json resp = Some (PDict kv)"
    and "truthy (dict_get kv ''success'' PNone)"
    and "loads e [] = None"
  shows "fst (perform e self c) =
           Inr (case map_of kv ''data'' of
                  None \<Rightarrow> PNone
                | Some (PStr s) \<Rightarrow> (case loads e s of Some v \<Rightarrow> v | None \<Rightarrow> PStr s)
                | Some d \<Rightarrow> d)
         \<and> (\<forall>d. map_of kv ''data'' = Some d \<and> \<not> truthy d \<longrightarrow> fst (perform e self c) = Inr d)"
proof -
  have r: "fst (perform e self c) =
      Inr (case dict_get kv ''data'' PNone of
             PStr s \<Rightarrow> (if s = [] then PStr s
                        else case loads e s of Some v \<Rightarrow> v | None \<Rightarrow> PStr s)
           | d \<Rightarrow> d)"
    using perform_envelope [OF assms(1-6)] assms(7) by simp
  have a: "fst (perform e self c) =
           Inr (case map_of kv ''data'' of
                  None \<Rightarrow> PNone
                | Some (PStr s) \<Rightarrow> (case loads e s of Some v \<Rightarrow> v | None \<Rightarrow> PStr s)
                | Some d \<Rightarrow> d)"
    unfolding r using assms(8)
    by (simp add: dict_get_def split: option.splits pyval.splits)
  have b: "fst (perform e self c) = Inr d" if "map_of kv ''data'' = Some d" "\<not> truthy d" for d
    unfolding r using that by (cases d) (simp_all add: dict_get_def)
  from a b show ?thesis by blast
qed

theorem success_data_unwrapped_witness:
  "fst (perform (env_with (reply_with (ok (PDict [(''success'', PBool True),
                                                  (''data'', PStr ''{\"a\":1}'')]))))
          local_client (Get_chat (IdInt 7)))
     = Inr (PDict [(''a'', PInt 1)])
   \<and> fst (perform (env_with (reply_with (ok (PDict [(''success'', PBool True),
                                                    (''data'', PStr ''plain text'')]))))
            local_client (Get_chat (IdInt 7)))
     = Inr (PStr ''plain text'')"
proof
  show "fst (perform (env_with (reply_with (ok (PDict [(''success'', PBool True),
                                                  (''data'', PStr ''{\"a\":1}'')]))))
          local_client (Get_chat (IdInt 7)))
     = Inr (PDict [(''a'', PInt 1)])"
    using success_data_unwrapped [of "Get_chat (IdInt 7)" local_client
        "env_with (reply_with (ok (PDict [(''success'', PBool True),
                                          (''data'', PStr ''{\"a\":1}'')])))"
        "ok (PDict [(''success'', PBool True), (''data'', PStr ''{\"a\":1}'')])"
        "[(''success'', PBool True), (''data'', PStr ''{\"a\":1}'')]"]
      local_client_open decode_samples
    by (simp add: reply_with_def ok_def env_with_def dict_get_def)
  show "fst (perform (env_with (reply_with (ok (PDict [(''success'', PBool True),
                                                    (''data'', PStr ''plain text'')]))))
            local_client (Get_chat (IdInt 7)))
     = Inr (PStr ''plain text'')"
    using success_data_unwrapped [of "Get_chat (IdInt 7)" local_client
        "env_with (reply_with (ok (PDict [(''success'', PBool True),
                                          (''data'', PStr ''plain text'')])))"
        "ok (PDict [(''success'', PBool True), (''data'', PStr ''plain text'')])"
        "[(''success'', PBool True), (''data'', PStr ''plain text'')]"]
      local_client_open decode_samples
    by (simp add: reply_with_def ok_def env_with_def dict_get_def)
qed

section \<open>Failures below the envelope\<close>

text \<open>
  C3, as stated, fails: a refused connection leaves the method as the HTTP library's
  request error and a 404 as its status error, not as the client error.
\<close>

theorem transport_failure_not_wrapped_counterexample:
  "fst (perform (env_with (refuse ''connection refused'')) local_client Get_me)
     = Inl (RequestError ''connection refused'')
   \<and> fst (perform (env_with (reply_with \<lparr>status_code = 404, content_json = None\<rparr>))
            local_client Get_me)
     = Inl (HTTPStatusError 404)"
  using local_client_open
  by (simp add: get_me_def get_def fst_request_transport_error fst_request_status
      env_with_def refuse_def reply_with_def)

text \<open>
  C3, amended. On an open client, a failure of the transport leaves every operation as
  the very exception the HTTP library raised, and a status outside 200..299 as the
  library's status error carrying that status. The client error leaves an operation
  only when the library raised it itself or the response was a 2xx object whose
  \<open>success\<close> is false in Python's sense.
\<close>

theorem library_errors_propagate:
  assumes "\<not> is_closed (client self)" and "\<forall>q. transport e q = r"
  shows "(\<forall>err. r = Inl err \<longrightarrow> fst (perform e self c) = Inl err)
       \<and> (\<forall>resp. r = Inr resp \<and> \<not> (200 \<le> status_code resp \<and> status_code resp \<le> 299) \<longrightarrow>
            fst (perform e self c) = Inl (HTTPStatusError (status_code resp)))
       \<and> (\<forall>m. fst (perform e self c) = Inl (TelegramClientError m) \<longrightarrow>
            r = Inl (TelegramClientError m)
            \<or> (\<exists>resp kv. r = Inr resp \<and> 200 \<le> status_code resp \<and> status_code resp \<le> 299
                 \<and> content_json resp = Some (PDict kv)
                 \<and> \<not> truthy (dict_get kv ''success'' PNone)))"
  using perform_transport_error [OF assms(1), of e _ c]
    perform_status_error [OF assms(1), of e _ c]
    perform_client_error_origin [OF assms(1), of e r c] assms(2)
  by blast

theorem library_errors_propagate_witness:
  "fst (perform (env_with (refuse ''timed out'')) local_client
          (Send_message (IdStr ''@user'') ''hi'' None None))
     = Inl (RequestError ''timed out'')
   \<and> fst (perform (env_with (reply_with \<lparr>status_code = 500, content_json = None\<rparr>))
            local_client Health_check)
     = Inl (HTTPStatusError 500)"
proof
  show "fst (perform (env_with (refuse ''timed out'')) local_client
          (Send_message (IdStr ''@user'') ''hi'' None None))
     = Inl (RequestError ''timed out'')"
    using library_errors_propagate [of local_client "env_with (refuse ''timed out'')"
        "Inl (RequestError ''timed out'')" "Send_message (IdStr ''@user'') ''hi'' None None"]
      local_client_open
    by (simp add: env_with_def refuse_def)
  show "fst (perform (env_with (reply_with \<lparr>status_code = 500, content_json = None\<rparr>))
            local_client Health_check)
     = Inl (HTTPStatusError 500)"
    using library_errors_propagate [of local_client
        "env_with (reply_with \<lparr>status_code = 500, content_json = None\<rparr>)"
        "Inr \<lparr>status_code = 500, content_json = None\<rparr>" Health_check]
      local_client_open
    by (simp add: env_with_def reply_with_def)
qed

section \<open>The health check\<close>

text \<open>
  C5. The health check sends one GET to the base address followed by \<open>/health\<close>, with
  no query and no body, and on a 2xx response returns the decoded body itself,
  whatever it is: there is no test of \<open>success\<close>, no look at \<open>error\<close>, no second
  decode of \<open>data\<close>. It is alone in this: on a body without a true \<open>success\<close> every
  other operation raises the client error.
\<close>

theorem health_check_returns_body:
  assumes "\<not> is_closed (client self)"
    and "transport e \<lparr>req_method = ''GET'', url = base_url self @ ''/health'',
                       params = None, json = None\<rparr> = Inr resp"
    and "200 \<le> status_code resp" and "status_code resp \<le> 299"
    and "content_json resp = Some body"
  shows "requests_of e self Health_check =
           [\<lparr>req_method = ''GET'', url = base_url self @ ''/health'',
             params = None, json = None\<rparr>]
         \<and> fst (health_check e self) = Inr body
         \<and> (\<forall>c kv. c \<noteq> Health_check \<and> (\<forall>q. transport e q = Inr resp) \<and> body = PDict kv
                \<and> \<not> truthy (dict_get kv ''success'' PNone) \<longrightarrow>
              fst (perform e self c) =
                Inl (TelegramClientError (dict_get kv ''error'' (PStr ''Unknown error''))))"
proof (intro conjI allI impI)
  show "requests_of e self Health_check =
           [\<lparr>req_method = ''GET'', url = base_url self @ ''/health'',
             params = None, json = None\<rparr>]"
    using assms(1) by (rule requests_of_health_check)
  show "fst (health_check e self) = Inr body"
    using assms by (simp add: fst_health_check)
next
  fix c kv
  assume h: "c \<noteq> Health_check \<and> (\<forall>q. transport e q = Inr resp) \<and> body = PDict kv
                \<and> \<not> truthy (dict_get kv ''success'' PNone)"
  then have "content_json resp = Some (PDict kv)" using assms(5) by simp
  with h show "fst (perform e self c) =
                Inl (TelegramClientError (dict_get kv ''error'' (PStr ''Unknown error'')))"
    using perform_envelope [of c self e resp kv] assms(1,3,4) by simp
qed

theorem health_check_returns_body_witness:
  "fst (health_check (env_with (reply_with (ok (PDict [(''status'', PStr ''ok'')]))))
         local_client)
     = Inr (PDict [(''status'', PStr ''ok'')])
   \<and> fst (health_check
            (env_with (reply_with (ok (PDict [(''success'', PBool False),
                                              (''data'', PStr ''{\"a\":1}'')]))))
            local_client)
     = Inr (PDict [(''success'', PBool False), (''data'', PStr ''{\"a\":1}'')])
   \<and> fst (perform (env_with (reply_with (ok (PDict [(''status'', PStr ''ok'')]))))
            local_client Get_me)
     = Inl (TelegramClientError (PStr ''Unknown error''))"
proof (intro conjI)
  show "fst (health_check (env_with (reply_with (ok (PDict [(''status'', PStr ''ok'')]))))
         local_client)
     = Inr (PDict [(''status'', PStr ''ok'')])"
    using health_check_returns_body [of local_client
        "env_with (reply_with (ok (PDict [(''status'', PStr ''ok'')])))"
        "ok (PDict [(''status'', PStr ''ok'')])" "PDict [(''status'', PStr ''ok'')]"]
      local_client_open
    by (simp add: reply_with_def ok_def env_with_def)
  show "fst (health_check
            (env_with (reply_with (ok (PDict [(''success'', PBool False),
                                              (''data'', PStr ''{\"a\":1}'')]))))
            local_client)
     = Inr (PDict [(''success'', PBool False), (''data'', PStr ''{\"a\":1}'')])"
    using health_check_returns_body [of local_client
        "env_with (reply_with (ok (PDict [(''success'', PBool False),
                                          (''data'', PStr ''{\"a\":1}'')])))"
        "ok (PDict [(''success'', PBool False), (''data'', PStr ''{\"a\":1}'')])"
        "PDict [(''success'', PBool False), (''data'', PStr ''{\"a\":1}'')]"]
      local_client_open
    by (simp add: reply_with_def ok_def env_with_def)
  show "fst (perform (env_with (reply_with (ok (PDict [(''status'', PStr ''ok'')]))))
            local_client Get_me)
     = Inl (TelegramClientError (PStr ''Unknown error''))"
    using health_check_returns_body [of local_client
        "env_with (reply_with (ok (PDict [(''status'', PStr ''ok'')])))"
        "ok (PDict [(''status'', PStr ''ok'')])" "PDict [(''status'', PStr ''ok'')]"]
      local_client_open
    by (auto simp add: reply_with_def ok_def env_with_def dict_get_def
        simp del: perform.simps)
qed

section \<open>Closing the client\<close>

text \<open>
  C7. Closing is idempotent. Any number of calls of \<open>close\<close>, and the call made on
  leaving a \<open>with\<close> block after an explicit close, leave the client as the first call
  left it; the transport is released once by the first call on an open client and by
  no later call, so a freshly constructed client has been released exactly once however
  often it is closed. Closing has no failing branch.
\<close>

theorem close_idempotent:
  "(close ^^ Suc n) self = close self
   \<and> exit (close self) = close self
   \<and> is_closed (client (close self))
   \<and> transport_closes (client ((close ^^ Suc n) self)) =
       (if is_closed (client self) then transport_closes (client self)
        else Suc (transport_closes (client self)))
   \<and> transport_closes (client ((close ^^ Suc n) (init b t))) = 1"
proof -
  have "transport_closes (client (close self)) =
       (if is_closed (client self) then transport_closes (client self)
        else Suc (transport_closes (client self)))"
    by (simp add: close_def httpx_close_def)
  moreover have "transport_closes (client (close (init b t))) = 1"
    by (simp add: close_def httpx_close_def init_def httpx_Client_def)
  moreover have "is_closed (client (close self))"
    by (simp add: close_def httpx_close_def)
  ultimately show ?thesis
    by (simp only: close_funpow exit_def close_close simp_thms)
qed

theorem close_idempotent_witness:
  "close (close (close local_client)) = close local_client
   \<and> transport_closes (client (close (close (close local_client)))) = 1
   \<and> transport_closes (client (exit (close local_client))) = 1"
  using close_idempotent [of 2 local_client "''http://localhost:8080/''" default_timeout]
    close_idempotent [of 0 local_client "''http://localhost:8080/''" default_timeout]
  by (simp add: local_client_def numeral_2_eq_2)

section \<open>Verbs, placement and payloads\<close>

text \<open>
  C6. Every operation on an open client sends exactly one request, to the base address
  followed by the path of its row in the specification's catalog, with the verb of that
  row, one of GET, POST, PUT and DELETE. Placement follows the verb: a GET carries no
  body and any other verb carries no query string; a row with query parameters has
  them in the query string, a row with body parameters has them in the JSON body, and
  in both cases every required key is present and no key outside the row; a row
  without parameters carries none.
\<close>

theorem verb_and_placement:
  assumes "\<not> is_closed (client self)"
  shows "\<exists>q. requests_of e self c = [q]
           \<and> req_method q = verb (catalog c)
           \<and> req_method q \<in> {''GET'', ''POST'', ''PUT'', ''DELETE''}
           \<and> url q = base_url self @ path (catalog c)
           \<and> (req_method q = ''GET'' \<longrightarrow> json q = None)
           \<and> (req_method q \<noteq> ''GET'' \<longrightarrow> params q = None)
           \<and> placed (catalog c) q"
proof -
  from assms obtain q where q: "requests_of e self c = [q]"
    "url q = base_url self @ path (catalog c)" "placed (catalog c) q"
    using requests_of_perform by blast
  have v: "verb (catalog c) \<in> {''GET'', ''POST'', ''PUT'', ''DELETE''}"
    by (cases c) simp_all
  from q(3) have m: "req_method q = verb (catalog c)"
    and g: "req_method q = ''GET'' \<longrightarrow> json q = None"
    and n: "req_method q \<noteq> ''GET'' \<longrightarrow> params q = None"
    by (simp_all add: placed_def)
  from q m v g n show ?thesis by simp
qed

theorem verb_and_placement_witness:
  "(\<exists>q. requests_of (env_with (refuse ''down'')) local_client (Search_contacts ''ann'' 10) = [q]
        \<and> req_method q = ''GET'' \<and> json q = None
        \<and> url q = ''http://localhost:8080/contacts/search''
        \<and> set (map fst (payload q)) = {''query'', ''limit''})
   \<and> (\<exists>q. requests_of (env_with (refuse ''down'')) local_client
              (Edit_message (IdInt 42) 7 ''new'') = [q]
        \<and> req_method q = ''PUT'' \<and> params q = None
        \<and> url q = ''http://localhost:8080/messages/edit'')"
  using verb_and_placement [of local_client "env_with (refuse ''down'')" "Search_contacts ''ann'' 10"]
    verb_and_placement [of local_client "env_with (refuse ''down'')" "Edit_message (IdInt 42) 7 ''new''"]
    local_client_open
  by (auto simp add: placed_def carries_def payload_def local_client_base
      split: option.splits)

text \<open>
  C10. The one helper for DELETE sends a JSON body if and only if it is given at least
  one parameter. Deleting a contact and clearing a draft pass none and send no body;
  deleting a message passes three and sends them. No DELETE request of any operation
  carries an empty object as its body or anything in the query string.
\<close>

theorem delete_body_iff_parameters:
  assumes "\<not> is_closed (client self)"
  shows "sent (client (snd (delete e self ep d))) =
           sent (client self) @
             [\<lparr>req_method = ''DELETE'', url = base_url self @ ep, params = None,
               json = (if d = [] then None else Some d)\<rparr>]
         \<and> requests_of e self (Delete_contact i) =
             [\<lparr>req_method = ''DELETE'', url = base_url self @ ''/contacts/'' @ py_str i,
               params = None, json = None\<rparr>]
         \<and> requests_of e self (Clear_draft i) =
             [\<lparr>req_method = ''DELETE'', url = base_url self @ ''/drafts/'' @ py_str i,
               params = None, json = None\<rparr>]
         \<and> requests_of e self (Delete_message i m r) =
             [\<lparr>req_method = ''DELETE'', url = base_url self @ ''/messages/delete'',
               params = None,
               json = Some [(''chat_id'', ident_val i), (''message_id'', PInt m),
                            (''revoke'', PBool r)]\<rparr>]
         \<and> (\<forall>c q. q \<in> set (requests_of e self c) \<and> req_method q = ''DELETE'' \<longrightarrow>
                params q = None \<and> json q \<noteq> Some [])"
proof (intro conjI allI impI)
  show "sent (client (snd (delete e self ep d))) =
           sent (client self) @
             [\<lparr>req_method = ''DELETE'', url = base_url self @ ep, params = None,
               json = (if d = [] then None else Some d)\<rparr>]"
    using assms by (simp add: delete_def sent_request)
  show "requests_of e self (Delete_contact i) =
             [\<lparr>req_method = ''DELETE'', url = base_url self @ ''/contacts/'' @ py_str i,
               params = None, json = None\<rparr>]"
    using assms by (simp add: requests_of_delete [where d = "[]"] delete_contact_def)
  show "requests_of e self (Clear_draft i) =
             [\<lparr>req_method = ''DELETE'', url = base_url self @ ''/drafts/'' @ py_str i,
               params = None, json = None\<rparr>]"
    using assms by (simp add: requests_of_delete [where d = "[]"] clear_draft_def)
  show "requests_of e self (Delete_message i m r) =
             [\<lparr>req_method = ''DELETE'', url = base_url self @ ''/messages/delete'',
               params = None,
               json = Some [(''chat_id'', ident_val i), (''message_id'', PInt m),
                            (''revoke'', PBool r)]\<rparr>]"
    using assms
    by (simp add: requests_of_delete
        [where d = "[(''chat_id'', ident_val i), (''message_id'', PInt m), (''revoke'', PBool r)]"]
        delete_message_def)
next
  fix c q
  assume "q \<in> set (requests_of e self c) \<and> req_method q = ''DELETE''"
  then show "params q = None" and "json q \<noteq> Some []"
    using delete_requests [OF assms, of q e c] by simp_all
qed

theorem delete_body_iff_parameters_witness:
  "requests_of (env_with (refuse ''down'')) local_client (Clear_draft (IdInt 42)) =
     [\<lparr>req_method = ''DELETE'', url = ''http://localhost:8080/drafts/42'',
       params = None, json = None\<rparr>]
   \<and> requests_of (env_with (refuse ''down'')) local_client (Delete_message (IdInt 42) 7 True) =
     [\<lparr>req_method = ''DELETE'', url = ''http://localhost:8080/messages/delete'',
       params = None,
       json = Some [(''chat_id'', PInt 42), (''message_id'', PInt 7), (''revoke'', PBool True)]\<rparr>]"
  using delete_body_iff_parameters [of local_client "env_with (refuse ''down'')" "[]" "[]"
      "IdInt 42" 7 True] local_client_open
  by (simp add: local_client_base str_int_samples)

text \<open>
  C4, as stated, fails: a caller who provides \<open>reply_to = 0\<close> gets a request without the
  key.
\<close>

theorem optional_key_dropped_counterexample:
  "sent_keys (env_with (refuse ''down'')) local_client
     (Send_message (IdInt 42) ''hi'' (Some 0) None) = [''chat_id'', ''message'']"
  using local_client_open
  by (simp add: sent_keys_def sent_items_def payload_def requests_of_post
      send_message_def Let_def)

text \<open>
  C4, amended. For each of the nine optional parameters the key is in the outgoing
  payload if and only if the caller provided a value that is true in Python's sense
  (an integer other than zero, a string other than the empty one). When the parameter
  is left out, or given as \<open>None\<close>, zero or the empty string, the key is absent; and
  whatever an optional key carries is a true value, so never \<open>None\<close> and never an empty
  marker.
\<close>

theorem optional_keys_iff_truthy:
  assumes "\<not> is_closed (client self)"
  shows "(''reply_to'' \<in> set (sent_keys e self (Send_message i m r p))
            \<longleftrightarrow> (\<exists>n. r = Some n \<and> n \<noteq> 0))
       \<and> (''parse_mode'' \<in> set (sent_keys e self (Send_message i m r p))
            \<longleftrightarrow> (\<exists>s. p = Some s \<and> s \<noteq> []))
       \<and> (''last_name'' \<in> set (sent_keys e self (Add_contact ph fn ln))
            \<longleftrightarrow> (\<exists>s. ln = Some s \<and> s \<noteq> []))
       \<and> (''title'' \<in> set (sent_keys e self (Promote_admin i u ti))
            \<longleftrightarrow> (\<exists>s. ti = Some s \<and> s \<noteq> []))
       \<and> (''until_date'' \<in> set (sent_keys e self (Ban_user i u ud))
            \<longleftrightarrow> (\<exists>n. ud = Some n \<and> n \<noteq> 0))
       \<and> (''mute_until'' \<in> set (sent_keys e self (Mute_chat i mu))
            \<longleftrightarrow> (\<exists>n. mu = Some n \<and> n \<noteq> 0))
       \<and> (''reply_to'' \<in> set (sent_keys e self (Save_draft i m r))
            \<longleftrightarrow> (\<exists>n. r = Some n \<and> n \<noteq> 0))
       \<and> (''from_user'' \<in> set (sent_keys e self (Search_messages i qy l fu))
            \<longleftrightarrow> (\<exists>w. fu = Some w \<and> w \<noteq> IdInt 0 \<and> w \<noteq> IdStr []))
       \<and> (''chat_type'' \<in> set (sent_keys e self (List_chats l ct a uo))
            \<longleftrightarrow> (\<exists>s. ct = Some s \<and> s \<noteq> []))
       \<and> (\<forall>c k v. (k, v) \<in> set (sent_items e self c) \<and> k \<in> set (optional (catalog c))
            \<longrightarrow> truthy v)"
proof (intro conjI)
  show "''reply_to'' \<in> set (sent_keys e self (Send_message i m r p))
            \<longleftrightarrow> (\<exists>n. r = Some n \<and> n \<noteq> 0)"
    using assms
    by (auto simp add: sent_keys_def sent_items_def payload_def requests_of_post
        send_message_def Let_def dict_set_def split: option.splits)
  show "''parse_mode'' \<in> set (sent_keys e self (Send_message i m r p))
            \<longleftrightarrow> (\<exists>s. p = Some s \<and> s \<noteq> [])"
    using assms
    by (auto simp add: sent_keys_def sent_items_def payload_def requests_of_post
        send_message_def Let_def dict_set_def split: option.splits)
  show "''last_name'' \<in> set (sent_keys e self (Add_contact ph fn ln))
            \<longleftrightarrow> (\<exists>s. ln = Some s \<and> s \<noteq> [])"
    using assms
    by (auto simp add: sent_keys_def sent_items_def payload_def requests_of_post
        add_contact_def Let_def dict_set_def split: option.splits)
  show "''title'' \<in> set (sent_keys e self (Promote_admin i u ti))
            \<longleftrightarrow> (\<exists>s. ti = Some s \<and> s \<noteq> [])"
    using assms
    by (auto simp add: sent_keys_def sent_items_def payload_def requests_of_post
        promote_admin_def Let_def dict_set_def split: option.splits)
  show "''until_date'' \<in> set (sent_keys e self (Ban_user i u ud))
            \<longleftrightarrow> (\<exists>n. ud = Some n \<and> n \<noteq> 0)"
    using assms
    by (auto simp add: sent_keys_def sent_items_def payload_def requests_of_post
        ban_user_def Let_def dict_set_def split: option.splits)
  show "''mute_until'' \<in> set (sent_keys e self (Mute_chat i mu))
            \<longleftrightarrow> (\<exists>n. mu = Some n \<and> n \<noteq> 0)"
    using assms
    by (auto simp add: sent_keys_def sent_items_def payload_def requests_of_post
        mute_chat_def Let_def dict_set_def split: option.splits)
  show "''reply_to'' \<in> set (sent_keys e self (Save_draft i m r))
            \<longleftrightarrow> (\<exists>n. r = Some n \<and> n \<noteq> 0)"
    using assms
    by (auto simp add: sent_keys_def sent_items_def payload_def requests_of_post
        save_draft_def Let_def dict_set_def split: option.splits)
  show "''from_user'' \<in> set (sent_keys e self (Search_messages i qy l fu))
            \<longleftrightarrow> (\<exists>w. fu = Some w \<and> w \<noteq> IdInt 0 \<and> w \<noteq> IdStr [])"
  proof (cases fu)
    case None
    then show ?thesis
      using assms
      by (simp add: sent_keys_def sent_items_def payload_def requests_of_post
          search_messages_def Let_def)
  next
    case (Some w)
    then show ?thesis
      using assms
      by (cases w) (auto simp add: sent_keys_def sent_items_def payload_def requests_of_post
          search_messages_def Let_def dict_set_def)
  qed
  show "''chat_type'' \<in> set (sent_keys e self (List_chats l ct a uo))
            \<longleftrightarrow> (\<exists>s. ct = Some s \<and> s \<noteq> [])"
    using assms
    by (auto simp add: sent_keys_def sent_items_def payload_def requests_of_get
        list_chats_def Let_def dict_set_def split: option.splits)
  show "\<forall>c k v. (k, v) \<in> set (sent_items e self c) \<and> k \<in> set (optional (catalog c))
            \<longrightarrow> truthy v"
    using optional_values_truthy [OF assms] by blast
qed

theorem optional_keys_iff_truthy_witness:
  "''reply_to'' \<in> set (sent_keys (env_with (refuse ''down'')) local_client
                          (Send_message (IdInt 42) ''hi'' (Some 7) None))
   \<and> ''parse_mode'' \<notin> set (sent_keys (env_with (refuse ''down'')) local_client
                              (Send_message (IdInt 42) ''hi'' (Some 7) None))
   \<and> ''mute_until'' \<notin> set (sent_keys (env_with (refuse ''down'')) local_client
                              (Mute_chat (IdInt 42) (Some 0)))"
  using optional_keys_iff_truthy [of local_client "env_with (refuse ''down'')"
      "IdInt 42" "''hi''" "Some 7" None _ _ _ _ _ _ "Some 0"] local_client_open
  by simp

section \<open>The base address\<close>

text \<open>
  C9. Construction stores the supplied base address with every trailing slash removed:
  the supplied address is the stored one followed by slashes only, and the stored one
  does not end in a slash. No operation and no close changes the stored address. Every
  operation on an open client sends its request to the stored address followed by the
  endpoint path, which begins with a slash; and in the address of a request of a
  constructed client no two adjacent slashes lie across the join or start at it.
\<close>

theorem base_url_join:
  "base_url (init b t) = rstrip ''/'' b
   \<and> (\<exists>n. b = base_url (init b t) @ replicate n CHR ''/'')
   \<and> (\<forall>z. base_url (init b t) \<noteq> z @ ''/'')
   \<and> base_url (snd (perform e self c)) = base_url self
   \<and> base_url (close self) = base_url self
   \<and> (\<not> is_closed (client self) \<longrightarrow>
        (\<exists>q. requests_of e self c = [q] \<and> url q = base_url self @ path (catalog c)))
   \<and> take 1 (path (catalog c)) = ''/''
   \<and> (\<forall>x y. base_url (init b t) @ path (catalog c) = x @ ''//'' @ y \<longrightarrow>
        length x + 1 \<noteq> length (base_url (init b t))
        \<and> length x \<noteq> length (base_url (init b t)))"
proof (intro conjI allI impI)
  show "base_url (init b t) = rstrip ''/'' b" by (simp add: init_def)
  show "\<exists>n. b = base_url (init b t) @ replicate n CHR ''/''"
    using rstrip_decomp [of b "CHR ''/''"] by (simp add: init_def)
  show "base_url (init b t) \<noteq> z @ ''/''" for z
    using rstrip_no_trailing [of "CHR ''/''" b z] by (simp add: init_def)
  show "base_url (snd (perform e self c)) = base_url self" by (rule base_url_perform)
  show "base_url (close self) = base_url self" by (simp add: close_def)
  show "\<exists>q. requests_of e self c = [q] \<and> url q = base_url self @ path (catalog c)"
    if "\<not> is_closed (client self)"
    using requests_of_perform [OF that, of e c] by blast
  show "take 1 (path (catalog c)) = ''/''" using path_slash by blast
next
  fix x y
  assume a: "base_url (init b t) @ path (catalog c) = x @ ''//'' @ y"
  have n: "\<And>z. base_url (init b t) \<noteq> z @ ''/''"
    using rstrip_no_trailing [of "CHR ''/''" b] by (simp add: init_def)
  from no_double_slash_at_join [OF n _ _ a] path_slash [of c]
  show "length x + 1 \<noteq> length (base_url (init b t))"
    and "length x \<noteq> length (base_url (init b t))" by blast+
qed

theorem base_url_join_witness:
  "base_url (init ''http://localhost:8080///'' default_timeout) = ''http://localhost:8080''
   \<and> (\<exists>q. requests_of (env_with (refuse ''down'')) local_client (Get_chat (IdInt 42)) = [q]
         \<and> url q = ''http://localhost:8080/chats/42'')"
  using base_url_join [of "''http://localhost:8080///''" default_timeout
      "env_with (refuse ''down'')" local_client "Get_chat (IdInt 42)"] local_client_open
  by (simp add: rstrip_def local_client_base str_int_samples)

end
